theory Spec2Isabelle
  imports Main
begin

section \<open>The session-and-view controller of \<open>frontend/app.js\<close>\<close>

text \<open>
  The script owns one variable (\<open>token\<close>), one entry of the browser's local storage
  (key \<open>token\<close>), and a handful of DOM nodes: two sections whose class list may hold
  \<open>hidden\<close>, a message node, the task list, and three input fields. Its handlers are
  \<open>async\<close> functions that await \<open>fetch\<close>. Each handler is embedded as a function from
  the page before the click to the page after it; what the environment answers is an
  argument: a \<open>fetch_result\<close> for each request the handler can issue, a
  \<open>storage_result\<close> for the write into the storage. The result \<open>Pending\<close> stands for
  a promise that has not settled: the page it yields is the page at the \<open>await\<close>,
  after the synchronous prefix of the handler. Every \<open>throw\<close> the handlers can meet is a
  branch: a property read on \<open>null\<close>, a value without a string conversion, a body that
  is not JSON, a rejected \<open>fetch\<close>, a refused write. The DOM nodes the script looks up
  exist, and the storage can be read and cleared (a browser that denies access to it
  stops the script at its first statement, before any handler is installed).
\<close>

subsection \<open>JavaScript values\<close>

text \<open>
  The values that \<open>JSON.parse\<close> and \<open>localStorage.getItem\<close> can produce, and
  \<open>undefined\<close> for a missing property. A number is carried by its decimal rendering,
  the string that \<open>String(n)\<close> returns (both zeros render as \<open>0\<close>): the script only
  converts numbers to strings and tests them for truth. An object is the list of its
  own properties, the first binding of a key being its value.
\<close>

datatype jsval =
    Undefined
  | Null
  | Bool bool
  | Num string
  | Str string
  | Arr "jsval list"
  | Obj "(string \<times> jsval) list"

datatype js_error = NetworkError | SyntaxError | TypeError | QuotaExceededError

text \<open>\<open>ToBoolean\<close>, as used by \<open>!token\<close>, \<open>if (token)\<close> and \<open>task.completed ? _ : _\<close>.\<close>

fun truthy :: "jsval \<Rightarrow> bool" where
  "truthy Undefined = False"
| "truthy Null = False"
| "truthy (Bool b) = b"
| "truthy (Num r) = (r \<noteq> ''0'' \<and> r \<noteq> ''NaN'')"
| "truthy (Str s) = (s \<noteq> [])"
| "truthy (Arr xs) = True"
| "truthy (Obj kvs) = True"

fun join_comma :: "string list \<Rightarrow> string" where
  "join_comma [] = []"
| "join_comma [x] = x"
| "join_comma (x # y # ys) = x @ '','' @ join_comma (y # ys)"

text \<open>
  \<open>ToString\<close>, as used by \<open>localStorage.setItem\<close>, by template literals and by
  \<open>+\<close> with a string operand; \<open>None\<close> when the conversion throws a \<open>TypeError\<close>. An
  object parsed from JSON converts through the inherited \<open>toString\<close> unless it owns a
  key \<open>toString\<close>: its value is never callable, and the inherited \<open>valueOf\<close> returns
  the object, so no primitive is found. An array joins the conversions of its elements
  with commas, \<open>null\<close> and \<open>undefined\<close> elements giving the empty string, and throws
  when an element does.
\<close>

fun to_string :: "jsval \<Rightarrow> string option"
  and elem_strings :: "jsval list \<Rightarrow> string list option" where
  "to_string Undefined = Some ''undefined''"
| "to_string Null = Some ''null''"
| "to_string (Bool b) = Some (if b then ''true'' else ''false'')"
| "to_string (Num r) = Some r"
| "to_string (Str s) = Some s"
| "to_string (Arr xs) = map_option join_comma (elem_strings xs)"
| "to_string (Obj kvs) =
     (if map_of kvs ''toString'' = None then Some ''[object Object]'' else None)"
| "elem_strings [] = Some []"
| "elem_strings (x # xs) =
     (case (if x = Undefined \<or> x = Null then Some [] else to_string x) of
        None \<Rightarrow> None
      | Some a \<Rightarrow> map_option ((#) a) (elem_strings xs))"

text \<open>
  Property read \<open>v.k\<close>, for the keys the script reads (\<open>access_token\<close>, \<open>detail\<close>,
  \<open>title\<close>, \<open>completed\<close>), none of which a prototype defines: a \<open>TypeError\<close> on
  \<open>null\<close> and \<open>undefined\<close>, \<open>undefined\<close> for a key the value does not own.
\<close>

fun get_prop :: "jsval \<Rightarrow> string \<Rightarrow> js_error + jsval" where
  "get_prop Undefined k = Inl TypeError"
| "get_prop Null k = Inl TypeError"
| "get_prop (Obj kvs) k = Inr (case map_of kvs k of None \<Rightarrow> Undefined | Some v \<Rightarrow> v)"
| "get_prop v k = Inr Undefined"

subsection \<open>The network and the storage\<close>

datatype req_body = NoBody | JsonBody jsval | FormBody "(string \<times> string) list"

text \<open>A request: method, URL, headers, body.\<close>

datatype request = Request string string "(string \<times> string) list" req_body

text \<open>
  A response: its status, and what \<open>response.json()\<close> resolves to (\<open>None\<close> when the
  body is not JSON and the promise rejects with a \<open>SyntaxError\<close>).
\<close>

record response =
  status :: nat
  json :: "jsval option"

definition ok :: "response \<Rightarrow> bool" where
  "ok resp = (200 \<le> status resp \<and> status resp \<le> 299)"

datatype fetch_result = Pending | Rejected | Resolved response

text \<open>
  What the browser answers to a write into the storage: the value is stored, or the
  quota is exceeded and \<open>setItem\<close> throws.
\<close>

datatype storage_result = Stored | QuotaExceeded

definition AUTH_API_URL :: string where
  "AUTH_API_URL = ''/auth''"

definition TASKS_API_URL :: string where
  "TASKS_API_URL = ''/api''"

subsection \<open>The page\<close>

text \<open>
  \<open>auth_hidden\<close> and \<open>tasks_hidden\<close> say whether the class list of \<open>#auth-section\<close>
  and \<open>#tasks-section\<close> holds \<open>hidden\<close>; \<open>auth_msg\<close> is the text of \<open>#auth-msg\<close>;
  \<open>tasks_list\<close> is the text of the \<open>li\<close> children of \<open>#tasks-list\<close>, in order;
  \<open>username\<close>, \<open>password\<close> and \<open>task_title\<close> are the values of the input fields;
  \<open>console\<close> is what \<open>console.error\<close> has printed and \<open>requests\<close> the calls made
  to \<open>fetch\<close>, oldest first. In the console, \<open>NetworkError\<close> stands for the rejection of
  \<open>fetch\<close>, whatever its cause.
\<close>

record page =
  token :: jsval
  storage :: "string option"
  auth_hidden :: bool
  tasks_hidden :: bool
  auth_msg :: string
  tasks_list :: "string list"
  username :: string
  password :: string
  task_title :: string
  console :: "(string \<times> js_error option) list"
  requests :: "request list"

text \<open>
  The string literals of the script, as the UTF-8 bytes of the source file
  (\<open>0xC3 0xA9\<close> is e acute, \<open>0xC3 0x89\<close> E acute, \<open>0xC3 0xA2\<close> a circumflex).
\<close>

definition msg_registered :: string where
  "msg_registered = ''Inscription r'' @ [CHR 0xC3, CHR 0xA9] @ ''ussie ! Connectez-vous.''"

definition msg_network :: string where
  "msg_network = ''Erreur r'' @ [CHR 0xC3, CHR 0xA9] @ ''seau.''"

definition msg_login_failed :: string where
  "msg_login_failed = [CHR 0xC3, CHR 0x89] @ ''chec de la connexion.''"

definition completed_marker :: string where
  "completed_marker = '' (Termin'' @ [CHR 0xC3, CHR 0xA9] @ ''e)''"

definition log_load_error :: string where
  "log_load_error = ''Erreur chargement t'' @ [CHR 0xC3, CHR 0xA2] @ ''ches:''"

definition log_add_refused :: string where
  "log_add_refused = ''Erreur ajout t'' @ [CHR 0xC3, CHR 0xA2] @ ''che''"

definition log_add_error :: string where
  "log_add_error = ''Erreur r'' @ [CHR 0xC3, CHR 0xA9] @ ''seau ajout t''
     @ [CHR 0xC3, CHR 0xA2] @ ''che:''"

definition console_error :: "string \<Rightarrow> js_error option \<Rightarrow> page \<Rightarrow> page" where
  "console_error m e s = s\<lparr>console := console s @ [(m, e)]\<rparr>"

definition fetch :: "request \<Rightarrow> page \<Rightarrow> page" where
  "fetch rq s = s\<lparr>requests := requests s @ [rq]\<rparr>"

definition getItem :: "string option \<Rightarrow> jsval" where
  "getItem st = (case st of None \<Rightarrow> Null | Some t \<Rightarrow> Str t)"

text \<open>
  \<open>localStorage.setItem('token', v)\<close>: the value is converted to a string first, then
  written if the browser has room for it. Either step can throw.
\<close>

definition setItem :: "storage_result \<Rightarrow> jsval \<Rightarrow> page \<Rightarrow> js_error + page" where
  "setItem q v s =
     (case to_string v of
        None \<Rightarrow> Inl TypeError
      | Some t \<Rightarrow>
          (case q of
             QuotaExceeded \<Rightarrow> Inl QuotaExceededError
           | Stored \<Rightarrow> Inr (s\<lparr>storage := Some t\<rparr>)))"

subsection \<open>Display logic\<close>

definition showAuth :: "page \<Rightarrow> page" where
  "showAuth s = s\<lparr>auth_hidden := False, tasks_hidden := True, token := Null, storage := None\<rparr>"

text \<open>
  The text of one list item: \<open>task.title + (task.completed ? ' (Terminee)' : '')\<close>.
  Both properties are read, then the title is converted. Reading a property of a
  \<open>null\<close> element throws, and so does a title that has no string conversion.
\<close>

definition li_text :: "jsval \<Rightarrow> js_error + string" where
  "li_text task =
     (case get_prop task ''title'' of
        Inl e \<Rightarrow> Inl e
      | Inr t \<Rightarrow>
          (case get_prop task ''completed'' of
             Inl e \<Rightarrow> Inl e
           | Inr c \<Rightarrow>
               (case to_string t of
                  None \<Rightarrow> Inl TypeError
                | Some x \<Rightarrow> Inr (x @ (if truthy c then completed_marker else [])))))"

text \<open>
  \<open>tasks.forEach\<close> over an array: the items appended so far, and the error that stopped
  the loop, if one did.
\<close>

fun forEach_li :: "jsval list \<Rightarrow> string list \<Rightarrow> string list \<times> js_error option" where
  "forEach_li [] lis = (lis, None)"
| "forEach_li (task # tasks) lis =
     (case li_text task of
        Inl e \<Rightarrow> (lis, Some e)
      | Inr txt \<Rightarrow> forEach_li tasks (lis @ [txt]))"

text \<open>
  The body of \<open>loadTasks\<close> after \<open>response.json()\<close> has resolved: the list is emptied,
  then filled; a value that is not an array has no \<open>forEach\<close> to call. The error, if
  any, goes to the \<open>catch\<close> of \<open>loadTasks\<close>.
\<close>

definition render :: "jsval \<Rightarrow> page \<Rightarrow> page \<times> js_error option" where
  "render tasks s =
     (let s1 = s\<lparr>tasks_list := []\<rparr> in
      case tasks of
        Arr ts \<Rightarrow> (case forEach_li ts (tasks_list s1) of (lis, e) \<Rightarrow> (s1\<lparr>tasks_list := lis\<rparr>, e))
      | _ \<Rightarrow> (s1, Some TypeError))"

text \<open>
  The header \<open>Bearer ${token}\<close> is built inside the \<open>try\<close>, before \<open>fetch\<close> is called:
  a token without a string conversion throws there, and no request is sent.
\<close>

definition loadTasks :: "fetch_result \<Rightarrow> page \<Rightarrow> page" where
  "loadTasks r s =
     (if \<not> truthy (token s) then s
      else
        case to_string (token s) of
          None \<Rightarrow> console_error log_load_error (Some TypeError) s
        | Some b \<Rightarrow>
            let s1 = fetch (Request ''GET'' (TASKS_API_URL @ ''/tasks'')
                       [(''Authorization'', ''Bearer '' @ b)] NoBody) s
            in case r of
                 Pending \<Rightarrow> s1
               | Rejected \<Rightarrow> console_error log_load_error (Some NetworkError) s1
               | Resolved resp \<Rightarrow>
                   if status resp = 401 then showAuth s1
                   else
                     (case json resp of
                        None \<Rightarrow> console_error log_load_error (Some SyntaxError) s1
                      | Some tasks \<Rightarrow>
                          (case render tasks s1 of
                             (s2, None) \<Rightarrow> s2
                           | (s2, Some e) \<Rightarrow> console_error log_load_error (Some e) s2)))"

definition showTasks :: "fetch_result \<Rightarrow> page \<Rightarrow> page" where
  "showTasks r s = loadTasks r (s\<lparr>auth_hidden := True, tasks_hidden := False\<rparr>)"

subsection \<open>Authentication logic\<close>

definition register :: "fetch_result \<Rightarrow> page \<Rightarrow> page" where
  "register r s =
     (let s1 = fetch (Request ''POST'' (AUTH_API_URL @ ''/register'')
                 [(''Content-Type'', ''application/json'')]
                 (JsonBody (Obj [(''username'', Str (username s)),
                                 (''password'', Str (password s))]))) s
      in case r of
           Pending \<Rightarrow> s1
         | Rejected \<Rightarrow> s1\<lparr>auth_msg := msg_network\<rparr>
         | Resolved resp \<Rightarrow>
             if status resp = 201 then s1\<lparr>auth_msg := msg_registered\<rparr>
             else
               (case json resp of
                  None \<Rightarrow> s1\<lparr>auth_msg := msg_network\<rparr>
                | Some data \<Rightarrow>
                    (case get_prop data ''detail'' of
                       Inl e \<Rightarrow> s1\<lparr>auth_msg := msg_network\<rparr>
                     | Inr d \<Rightarrow>
                         (case to_string d of
                            None \<Rightarrow> s1\<lparr>auth_msg := msg_network\<rparr>
                          | Some t \<Rightarrow> s1\<lparr>auth_msg := ''Erreur: '' @ t\<rparr>))))"

text \<open>
  \<open>login r q rt\<close>: \<open>r\<close> answers the POST to \<open>/auth/login\<close>, \<open>q\<close> the write into the
  storage, \<open>rt\<close> the GET that \<open>showTasks\<close> issues when the new token is truthy. The
  variable \<open>token\<close> is assigned before \<open>setItem\<close> is called: when \<open>setItem\<close> throws,
  \<open>showTasks\<close> is skipped and the \<open>catch\<close> finds the token already replaced.
\<close>

definition login :: "fetch_result \<Rightarrow> storage_result \<Rightarrow> fetch_result \<Rightarrow> page \<Rightarrow> page" where
  "login r q rt s =
     (let s1 = fetch (Request ''POST'' (AUTH_API_URL @ ''/login'')
                 [(''Content-Type'', ''application/x-www-form-urlencoded'')]
                 (FormBody [(''username'', username s), (''password'', password s)]))
                 (s\<lparr>auth_msg := []\<rparr>)
      in case r of
           Pending \<Rightarrow> s1
         | Rejected \<Rightarrow> s1\<lparr>auth_msg := msg_network\<rparr>
         | Resolved resp \<Rightarrow>
             if ok resp then
               (case json resp of
                  None \<Rightarrow> s1\<lparr>auth_msg := msg_network\<rparr>
                | Some data \<Rightarrow>
                    (case get_prop data ''access_token'' of
                       Inl e \<Rightarrow> s1\<lparr>auth_msg := msg_network\<rparr>
                     | Inr v \<Rightarrow>
                         (case setItem q v (s1\<lparr>token := v\<rparr>) of
                            Inl e \<Rightarrow> s1\<lparr>token := v, auth_msg := msg_network\<rparr>
                          | Inr s2 \<Rightarrow> showTasks rt s2)))
             else s1\<lparr>auth_msg := msg_login_failed\<rparr>)"

definition logout :: "page \<Rightarrow> page" where
  "logout s = showAuth s"

subsection \<open>Task logic\<close>

text \<open>
  \<open>addTask r rt\<close>: \<open>r\<close> answers the POST to \<open>/api/tasks\<close>, \<open>rt\<close> the GET of the
  \<open>loadTasks\<close> that follows a 201. As in \<open>loadTasks\<close>, the header is built inside the
  \<open>try\<close> before the request is sent.
\<close>

definition addTask :: "fetch_result \<Rightarrow> fetch_result \<Rightarrow> page \<Rightarrow> page" where
  "addTask r rt s =
     (if \<not> truthy (token s) then s
      else
        let title = task_title s in
        if title = [] then s
        else
          case to_string (token s) of
            None \<Rightarrow> console_error log_add_error (Some TypeError) s
          | Some b \<Rightarrow>
              let s1 = fetch (Request ''POST'' (TASKS_API_URL @ ''/tasks'')
                         [(''Content-Type'', ''application/json''),
                          (''Authorization'', ''Bearer '' @ b)]
                         (JsonBody (Obj [(''title'', Str title)]))) s
              in case r of
                   Pending \<Rightarrow> s1
                 | Rejected \<Rightarrow> console_error log_add_error (Some NetworkError) s1
                 | Resolved resp \<Rightarrow>
                     if status resp = 201 then loadTasks rt (s1\<lparr>task_title := []\<rparr>)
                     else console_error log_add_refused None s1)"

subsection \<open>Initialisation\<close>

text \<open>
  The script's top level: \<open>let token = localStorage.getItem('token')\<close>, then the final
  \<open>if\<close>. The argument is the page as the document and the storage give it, whatever its
  \<open>token\<close> field; \<open>rt\<close> answers the GET of \<open>showTasks\<close>.
\<close>

definition initialisation :: "fetch_result \<Rightarrow> page \<Rightarrow> page" where
  "initialisation rt s =
     (let s0 = s\<lparr>token := getItem (storage s)\<rparr>
      in if truthy (token s0) then showTasks rt s0 else showAuth s0)"

subsection \<open>Views\<close>

datatype view = AuthView | TasksView

text \<open>The view a page shows: the one section that is not hidden, when there is exactly one.\<close>

definition view_of :: "page \<Rightarrow> view option" where
  "view_of s =
     (if \<not> auth_hidden s \<and> tasks_hidden s then Some AuthView
      else if auth_hidden s \<and> \<not> tasks_hidden s then Some TasksView
      else None)"

subsection \<open>Vocabulary of the specification and of the proofs\<close>

text \<open>
  The session invariant, in the words of the specification: the tasks panel is visible
  if and only if a token is present, and without a token the auth panel is shown and
  the storage holds no token. A token is present when the script's own test
  (\<open>if (token)\<close>) says so.
\<close>

definition session_inv :: "page \<Rightarrow> bool" where
  "session_inv s =
     ((\<not> tasks_hidden s \<longleftrightarrow> truthy (token s)) \<and>
      (\<not> truthy (token s) \<longrightarrow> \<not> auth_hidden s \<and> storage s = None))"

text \<open>What the script never touches outside \<open>showAuth\<close>, \<open>showTasks\<close> and a granted login.\<close>

definition same_session :: "page \<Rightarrow> page \<Rightarrow> bool" where
  "same_session s s' =
     (token s' = token s \<and> storage s' = storage s \<and>
      auth_hidden s' = auth_hidden s \<and> tasks_hidden s' = tasks_hidden s)"

definition is_401 :: "fetch_result \<Rightarrow> bool" where
  "is_401 r = (case r of Resolved resp \<Rightarrow> status resp = 401 | _ \<Rightarrow> False)"

definition is_array :: "jsval \<Rightarrow> bool" where
  "is_array v = (case v of Arr ts \<Rightarrow> True | _ \<Rightarrow> False)"

definition nullish :: "jsval \<Rightarrow> bool" where
  "nullish v = (v = Null \<or> v = Undefined)"

text \<open>
  An element of the array renders when \<open>li_text\<close> builds its item without throwing;
  \<open>item_text\<close> is that item.
\<close>

definition renders :: "jsval \<Rightarrow> bool" where
  "renders task = (case li_text task of Inl e \<Rightarrow> False | Inr x \<Rightarrow> True)"

definition item_text :: "jsval \<Rightarrow> string" where
  "item_text task = (case li_text task of Inl e \<Rightarrow> [] | Inr x \<Rightarrow> x)"

text \<open>
  A task of the data model is a title and a completion flag. The specification displays
  it as its title, suffixed with the completion marker when \<open>completed\<close> is true; the
  marker is written out here, a blank and the word \<open>Terminee\<close> (with its accent) in
  parentheses.
\<close>

definition spec_display :: "string \<times> bool \<Rightarrow> string" where
  "spec_display t =
     fst t @ (if snd t then '' (Termin'' @ [CHR 0xC3, CHR 0xA9] @ ''e)'' else [])"

text \<open>A JSON value carries a task: its \<open>title\<close> is that string, its \<open>completed\<close> that boolean.\<close>

definition is_task :: "jsval \<Rightarrow> string \<times> bool \<Rightarrow> bool" where
  "is_task j t =
     (get_prop j ''title'' = Inr (Str (fst t)) \<and> get_prop j ''completed'' = Inr (Bool (snd t)))"

text \<open>
  Trimming, in the words of the specification ("empty after trimming"): leading and
  trailing blanks, tabs and line breaks are dropped. The script has no such function.
\<close>

definition spec_whitespace :: "char \<Rightarrow> bool" where
  "spec_whitespace c = (c \<in> set [CHR '' '', CHR 0x09, CHR 0x0A, CHR 0x0B, CHR 0x0C, CHR 0x0D])"

definition spec_trim :: "string \<Rightarrow> string" where
  "spec_trim t = rev (dropWhile spec_whitespace (rev (dropWhile spec_whitespace t)))"

text \<open>
  The three requests the task and login handlers send; \<open>b\<close> is the token as the header
  carries it.
\<close>

definition get_tasks_request :: "string \<Rightarrow> request" where
  "get_tasks_request b =
     Request ''GET'' ''/api/tasks'' [(''Authorization'', ''Bearer '' @ b)] NoBody"

definition post_task_request :: "string \<Rightarrow> string \<Rightarrow> request" where
  "post_task_request b title =
     Request ''POST'' ''/api/tasks''
       [(''Content-Type'', ''application/json''), (''Authorization'', ''Bearer '' @ b)]
       (JsonBody (Obj [(''title'', Str title)]))"

definition login_request :: "string \<Rightarrow> string \<Rightarrow> request" where
  "login_request u p =
     Request ''POST'' ''/auth/login'' [(''Content-Type'', ''application/x-www-form-urlencoded'')]
       (FormBody [(''username'', u), (''password'', p)])"

subsection \<open>Example pages\<close>

text \<open>
  The page of the specification's scenario: \<open>alice\<close> before her login, and after it with
  one task rendered and a title typed into the input.
\<close>

definition logged_out :: page where
  "logged_out = \<lparr>token = Null, storage = None, auth_hidden = False, tasks_hidden = True,
     auth_msg = [], tasks_list = [], username = ''alice'', password = ''x'',
     task_title = [], console = [], requests = []\<rparr>"

definition logged_in :: page where
  "logged_in = logged_out\<lparr>token := Str ''tok1'', storage := Some ''tok1'',
     auth_hidden := True, tasks_hidden := False, tasks_list := [''Buy milk''],
     task_title := ''Walk dog''\<rparr>"

definition json_response :: "jsval \<Rightarrow> fetch_result" where
  "json_response d = Resolved \<lparr>status = 200, json = Some d\<rparr>"

text \<open>The JSON object \<open>{"toString": 1}\<close>: truthy, and without a string conversion.\<close>

definition unprintable :: jsval where
  "unprintable = Obj [(''toString'', Num ''1'')]"

section \<open>Properties\<close>

subsection \<open>What each handler leaves alone\<close>

lemma render_frame: "\<exists>lis. fst (render v s) = s\<lparr>tasks_list := lis\<rparr>"
  by (cases v) (auto simp: render_def split: prod.splits)

lemma same_session_render: "same_session s (fst (render v s))"
proof -
  obtain lis where "fst (render v s) = s\<lparr>tasks_list := lis\<rparr>"
    using render_frame by blast
  then show ?thesis by (simp add: same_session_def)
qed


lemma loadTasks_falsy: "\<not> truthy (token s) \<Longrightarrow> loadTasks r s = s"
  by (simp add: loadTasks_def)

text \<open>A truthy token without a string conversion: the header throws, nothing is sent.\<close>

lemma loadTasks_unprintable:
  "truthy (token s) \<Longrightarrow> to_string (token s) = None \<Longrightarrow>
   loadTasks r s = s\<lparr>console := console s @ [(log_load_error, Some TypeError)]\<rparr>"
  by (simp add: loadTasks_def console_error_def)

lemma loadTasks_Pending:
  "truthy (token s) \<Longrightarrow> to_string (token s) = Some b \<Longrightarrow>
   loadTasks Pending s = fetch (get_tasks_request b) s"
  by (simp add: loadTasks_def get_tasks_request_def TASKS_API_URL_def)

text \<open>Unless the answer is a 401, \<open>loadTasks\<close> keeps the token, the storage and the panels.\<close>

lemma loadTasks_not_401:
  assumes n: "\<not> is_401 r"
  shows "same_session s (loadTasks r s)"
proof (cases "truthy (token s)")
  case False
  then show ?thesis by (simp add: loadTasks_falsy same_session_def)
next
  case True
  show ?thesis
  proof (cases "to_string (token s)")
    case None
    with True show ?thesis by (simp add: loadTasks_unprintable same_session_def)
  next
    case (Some b)
    let ?s1 = "fetch (Request ''GET'' (TASKS_API_URL @ ''/tasks'')
                     [(''Authorization'', ''Bearer '' @ b)] NoBody) s"
    show ?thesis
    proof (cases r)
      case Pending
      with True Some show ?thesis by (simp add: loadTasks_def same_session_def fetch_def)
    next
      case Rejected
      with True Some show ?thesis
        by (simp add: loadTasks_def same_session_def fetch_def console_error_def)
    next
      case (Resolved resp)
      with n have st: "status resp \<noteq> 401" by (simp add: is_401_def)
      show ?thesis
      proof (cases "json resp")
        case None
        with st True Some Resolved show ?thesis
          by (simp add: loadTasks_def same_session_def fetch_def console_error_def)
      next
        case body: (Some v)
        have "same_session ?s1 (fst (render v ?s1))" by (rule same_session_render)
        then have r: "same_session s (fst (render v ?s1))"
          by (simp add: same_session_def fetch_def)
        from st True Some Resolved body
        have "same_session (fst (render v ?s1)) (loadTasks r s)"
          by (auto simp: loadTasks_def same_session_def console_error_def
                split: prod.splits option.splits)
        with r show ?thesis by (simp add: same_session_def)
      qed
    qed
  qed
qed

lemma loadTasks_session:
  "(\<exists>s'. loadTasks r s = showAuth s') \<or> same_session s (loadTasks r s)"
proof (cases "is_401 r")
  case False
  then show ?thesis by (simp add: loadTasks_not_401)
next
  case True
  then obtain resp where r: "r = Resolved resp" "status resp = 401"
    by (auto simp: is_401_def split: fetch_result.splits)
  show ?thesis
  proof (cases "truthy (token s)")
    case False
    then show ?thesis by (simp add: loadTasks_falsy same_session_def)
  next
    case t: True
    show ?thesis
    proof (cases "to_string (token s)")
      case None
      with t show ?thesis by (simp add: loadTasks_unprintable same_session_def)
    next
      case (Some b)
      with t r show ?thesis by (auto simp: loadTasks_def)
    qed
  qed
qed

lemma same_session_register: "same_session s (register r s)"
  by (auto simp: register_def same_session_def fetch_def Let_def
        split: fetch_result.splits option.splits sum.splits)

lemma login_granted:
  "ok resp \<Longrightarrow> json resp = Some d \<Longrightarrow> get_prop d ''access_token'' = Inr v \<Longrightarrow>
   to_string v = Some t \<Longrightarrow>
   login (Resolved resp) Stored rt s
     = loadTasks rt (s\<lparr>auth_msg := [],
            requests := requests s @ [login_request (username s) (password s)],
            token := v, storage := Some t,
            auth_hidden := True, tasks_hidden := False\<rparr>)"
  by (simp add: login_def setItem_def showTasks_def fetch_def login_request_def AUTH_API_URL_def)

lemma login_not_stored:
  "ok resp \<Longrightarrow> json resp = Some d \<Longrightarrow> get_prop d ''access_token'' = Inr v \<Longrightarrow>
   to_string v = None \<or> q = QuotaExceeded \<Longrightarrow>
   login (Resolved resp) q rt s
     = s\<lparr>auth_msg := msg_network,
         requests := requests s @ [login_request (username s) (password s)],
         token := v\<rparr>"
  by (cases "to_string v")
    (auto simp: login_def setItem_def fetch_def login_request_def AUTH_API_URL_def Let_def
       split: storage_result.splits)

lemma login_no_body:
  "ok resp \<Longrightarrow> json resp = None \<or> (\<exists>d e. json resp = Some d \<and> get_prop d ''access_token'' = Inl e) \<Longrightarrow>
   login (Resolved resp) q rt s
     = s\<lparr>auth_msg := msg_network,
         requests := requests s @ [login_request (username s) (password s)]\<rparr>"
  by (auto simp: login_def fetch_def login_request_def AUTH_API_URL_def)

lemma login_refused:
  "\<not> ok resp \<Longrightarrow>
   login (Resolved resp) q rt s
     = s\<lparr>auth_msg := msg_login_failed,
         requests := requests s @ [login_request (username s) (password s)]\<rparr>"
  by (simp add: login_def fetch_def login_request_def AUTH_API_URL_def)

lemma login_Rejected:
  "login Rejected q rt s
     = s\<lparr>auth_msg := msg_network,
         requests := requests s @ [login_request (username s) (password s)]\<rparr>"
  by (simp add: login_def fetch_def login_request_def AUTH_API_URL_def)

text \<open>
  A login either keeps the session as it is, or the response is 2xx, its body is JSON
  and a value is read from \<open>access_token\<close>.
\<close>

lemma login_cases:
  "same_session s (login r q rt s) \<or>
   (\<exists>resp d v. r = Resolved resp \<and> ok resp \<and> json resp = Some d \<and>
      get_prop d ''access_token'' = Inr v)"
proof (cases r)
  case Pending
  then show ?thesis by (simp add: login_def same_session_def fetch_def)
next
  case Rejected
  then show ?thesis by (simp add: login_Rejected same_session_def)
next
  case (Resolved resp)
  show ?thesis
  proof (cases "ok resp")
    case False
    with Resolved show ?thesis by (simp add: login_refused same_session_def)
  next
    case True
    show ?thesis
    proof (cases "json resp")
      case None
      with True Resolved show ?thesis by (simp add: login_no_body same_session_def)
    next
      case (Some d)
      show ?thesis
      proof (cases "get_prop d ''access_token''")
        case (Inl e)
        with Some True Resolved show ?thesis
          by (simp add: login_no_body same_session_def)
      next
        case (Inr v)
        with Some True Resolved show ?thesis by simp
      qed
    qed
  qed
qed

lemma addTask_cases:
  "same_session s (addTask r rt s) \<or>
   (\<exists>s'. same_session s s' \<and> addTask r rt s = loadTasks rt s')"
proof (cases "truthy (token s) \<and> task_title s \<noteq> []")
  case False
  then have "addTask r rt s = s" by (auto simp: addTask_def)
  then show ?thesis by (simp add: same_session_def)
next
  case True
  show ?thesis
  proof (cases "to_string (token s)")
    case None
    with True have "same_session s (addTask r rt s)"
      by (simp add: addTask_def same_session_def console_error_def)
    then show ?thesis ..
  next
    case (Some b)
    show ?thesis
    proof (cases "\<exists>resp. r = Resolved resp \<and> status resp = 201")
      case False
      with True Some have "same_session s (addTask r rt s)"
        by (cases r)
          (simp_all add: addTask_def same_session_def fetch_def console_error_def Let_def)
      then show ?thesis ..
    next
      case created: True
      let ?s' = "(fetch (Request ''POST'' (TASKS_API_URL @ ''/tasks'')
                       [(''Content-Type'', ''application/json''),
                        (''Authorization'', ''Bearer '' @ b)]
                       (JsonBody (Obj [(''title'', Str (task_title s))]))) s)\<lparr>task_title := []\<rparr>"
      from True Some created have "addTask r rt s = loadTasks rt ?s'"
        by (auto simp: addTask_def Let_def)
      moreover have "same_session s ?s'" by (simp add: same_session_def fetch_def)
      ultimately show ?thesis by blast
    qed
  qed
qed

subsection \<open>The session invariant, handler by handler\<close>

lemma session_inv_showAuth: "session_inv (showAuth s)"
  by (simp add: session_inv_def showAuth_def)

lemma session_inv_same: "same_session s s' \<Longrightarrow> session_inv s \<Longrightarrow> session_inv s'"
  by (simp add: session_inv_def same_session_def)

lemma session_inv_loadTasks: "session_inv s \<Longrightarrow> session_inv (loadTasks r s)"
  using loadTasks_session [of r s] session_inv_showAuth session_inv_same by auto

lemma session_inv_showTasks: "truthy (token s) \<Longrightarrow> session_inv (showTasks r s)"
  unfolding showTasks_def
  by (rule session_inv_loadTasks) (simp add: session_inv_def)

lemma session_inv_initialisation: "session_inv (initialisation rt s)"
  by (simp add: initialisation_def Let_def session_inv_showTasks session_inv_showAuth)

lemma session_inv_register: "session_inv s \<Longrightarrow> session_inv (register r s)"
  using same_session_register session_inv_same by blast

lemma session_inv_addTask: "session_inv s \<Longrightarrow> session_inv (addTask r rt s)"
  using addTask_cases [of s r rt] session_inv_same session_inv_loadTasks by metis

lemma session_inv_login:
  assumes "session_inv s"
    and "\<forall>resp d v. r = Resolved resp \<and> ok resp \<and> json resp = Some d \<and>
           get_prop d ''access_token'' = Inr v
           \<longrightarrow> truthy v \<and> to_string v \<noteq> None \<and> q = Stored"
  shows "session_inv (login r q rt s)"
  using login_cases [of s r q rt]
proof
  assume "same_session s (login r q rt s)"
  with assms(1) show ?thesis by (rule session_inv_same [rotated])
next
  assume "\<exists>resp d v. r = Resolved resp \<and> ok resp \<and> json resp = Some d \<and>
      get_prop d ''access_token'' = Inr v"
  then obtain resp d v where h: "r = Resolved resp" "ok resp" "json resp = Some d"
      "get_prop d ''access_token'' = Inr v"
    by blast
  with assms(2) have "truthy v \<and> to_string v \<noteq> None \<and> q = Stored" by blast
  then obtain t where t: "truthy v" "to_string v = Some t" "q = Stored" by auto
  have "login r q rt s = showTasks rt (s\<lparr>auth_msg := [],
            requests := requests s @ [login_request (username s) (password s)],
            token := v, storage := Some t\<rparr>)"
    using h t login_granted [of resp d v t rt s] by (simp add: showTasks_def)
  with t(1) show ?thesis by (simp add: session_inv_showTasks)
qed

subsection \<open>The rendering loop\<close>

lemma li_text_nullish: "nullish t \<Longrightarrow> li_text t = Inl TypeError"
  by (auto simp: nullish_def li_text_def)

lemma li_text_error: "li_text t = Inl e \<Longrightarrow> e = TypeError"
  by (cases t) (auto simp: li_text_def split: option.splits)

lemma li_text_task: "is_task j t \<Longrightarrow> li_text j = Inr (spec_display t)"
  by (simp add: is_task_def li_text_def spec_display_def completed_marker_def)

text \<open>
  The loop appends the items of the elements before the first one that does not render,
  and throws a \<open>TypeError\<close> if there is one.
\<close>

lemma forEach_li_prefix:
  "forEach_li ts lis =
     (lis @ map item_text (takeWhile renders ts),
      if list_all renders ts then None else Some TypeError)"
proof (induction ts arbitrary: lis)
  case Nil
  then show ?case by simp
next
  case (Cons t ts)
  show ?case
  proof (cases "li_text t")
    case (Inl e)
    then have "e = TypeError" by (rule li_text_error)
    with Inl show ?thesis by (simp add: renders_def)
  next
    case (Inr x)
    with Cons.IH [of "lis @ [x]"] show ?thesis
      by (simp add: renders_def item_text_def)
  qed
qed

text \<open>Over well-formed tasks the loop appends one item per task, in order, and throws nothing.\<close>

lemma forEach_li_tasks:
  "list_all2 is_task js ts \<Longrightarrow> forEach_li js lis = (lis @ map spec_display ts, None)"
proof (induction js arbitrary: ts lis)
  case Nil
  then show ?case by simp
next
  case (Cons j js)
  then obtain t ts' where ts: "ts = t # ts'" "is_task j t" "list_all2 is_task js ts'"
    by (auto simp: list_all2_Cons1)
  with Cons.IH [of ts' "lis @ [spec_display t]"] show ?case
    by (simp add: li_text_task)
qed

section \<open>The claims\<close>

subsection \<open>C1: the session invariant\<close>

text \<open>
  C1, as stated, fails on Login. Answered by a 2xx response whose JSON body has no
  \<open>access_token\<close>, it shows the tasks panel although no token is present, and leaves
  the string \<open>undefined\<close> in the storage. Answered with a token that \<open>setItem\<close> does not
  store (the value \<open>{"toString": 1}\<close>, or any token when the quota is exceeded), it
  keeps the token in memory while the auth panel stays and the tasks panel is hidden.
  The page before each of these logins satisfies the invariant, the page after it does
  not.
\<close>

theorem session_inv_counterexample:
  "session_inv logged_out \<and>
   \<not> session_inv (login (json_response (Obj [])) Stored Pending logged_out) \<and>
   \<not> tasks_hidden (login (json_response (Obj [])) Stored Pending logged_out) \<and>
   token (login (json_response (Obj [])) Stored Pending logged_out) = Undefined \<and>
   storage (login (json_response (Obj [])) Stored Pending logged_out) = Some ''undefined'' \<and>
   \<not> session_inv
     (login (json_response (Obj [(''access_token'', unprintable)])) Stored Pending logged_out) \<and>
   \<not> session_inv
     (login (json_response (Obj [(''access_token'', Str ''tok1'')])) QuotaExceeded Pending
        logged_out)"
  by (simp add: session_inv_def logged_out_def json_response_def unprintable_def login_def
        setItem_def ok_def showTasks_def loadTasks_def fetch_def)

text \<open>
  C1, amended: initialisation and Logout establish the invariant; Register, LoadTasks and
  AddTask preserve it, whatever the network answers; Login preserves it provided that,
  when it is answered by a 2xx response whose JSON body yields a value for
  \<open>access_token\<close>, that value is truthy and is stored (it has a string conversion and
  the storage accepts the write).
\<close>

theorem session_inv_maintained:
  "session_inv (initialisation rt s) \<and> session_inv (logout s) \<and>
   (session_inv s \<longrightarrow>
      session_inv (register r s) \<and> session_inv (loadTasks r s) \<and> session_inv (addTask r rt s) \<and>
      ((\<forall>resp d v. r = Resolved resp \<and> ok resp \<and> json resp = Some d \<and>
           get_prop d ''access_token'' = Inr v
           \<longrightarrow> truthy v \<and> to_string v \<noteq> None \<and> q = Stored)
        \<longrightarrow> session_inv (login r q rt s)))"
  by (simp add: session_inv_initialisation logout_def session_inv_showAuth session_inv_register
        session_inv_loadTasks session_inv_addTask session_inv_login)

text \<open>
  Witness for C1: on the logged-in page, with a response that carries the token \<open>tok2\<close>
  and a storage that accepts it, every handler ends in a page that satisfies the
  invariant.
\<close>

theorem session_inv_maintained_witness:
  "session_inv logged_in \<and> truthy (Str ''tok2'') \<and> to_string (Str ''tok2'') \<noteq> None \<and>
   session_inv (initialisation Pending logged_in) \<and> session_inv (logout logged_in) \<and>
   session_inv (register (json_response (Obj [(''access_token'', Str ''tok2'')])) logged_in) \<and>
   session_inv (loadTasks (json_response (Obj [(''access_token'', Str ''tok2'')])) logged_in) \<and>
   session_inv (addTask (json_response (Obj [(''access_token'', Str ''tok2'')])) Pending logged_in) \<and>
   session_inv
     (login (json_response (Obj [(''access_token'', Str ''tok2'')])) Stored Pending logged_in)"
proof -
  have i: "session_inv logged_in"
    by (simp add: session_inv_def logged_in_def logged_out_def)
  have t: "\<forall>resp d v.
      json_response (Obj [(''access_token'', Str ''tok2'')]) = Resolved resp
        \<and> ok resp \<and> json resp = Some d \<and> get_prop d ''access_token'' = Inr v
      \<longrightarrow> truthy v \<and> to_string v \<noteq> None \<and> Stored = Stored"
    by (auto simp: json_response_def)
  from i t session_inv_maintained [of Pending logged_in
      "json_response (Obj [(''access_token'', Str ''tok2'')])" Stored]
  show ?thesis by simp
qed

subsection \<open>C2: AddTask with a blank title\<close>

text \<open>
  C2, as stated, fails: the script tests the title with \<open>!title\<close> and never trims it.
  A title of two blanks is empty after trimming, yet the POST is sent, and once it is
  answered by a 201 the reload replaces the rendered list.
\<close>

theorem addTask_blank_title_counterexample:
  "spec_trim ''  '' = [] \<and>
   requests (logged_in\<lparr>task_title := ''  ''\<rparr>) = [] \<and>
   requests (addTask Pending Pending (logged_in\<lparr>task_title := ''  ''\<rparr>))
     = [post_task_request ''tok1'' ''  ''] \<and>
   tasks_list (addTask (Resolved \<lparr>status = 201, json = None\<rparr>) (json_response (Arr []))
       (logged_in\<lparr>task_title := ''  ''\<rparr>))
     \<noteq> tasks_list (logged_in\<lparr>task_title := ''  ''\<rparr>)"
  by (simp add: spec_trim_def spec_whitespace_def addTask_def loadTasks_def fetch_def
        logged_in_def logged_out_def post_task_request_def json_response_def TASKS_API_URL_def
        render_def Let_def)

text \<open>
  C2, amended: for the empty title, AddTask performs no network call and leaves the
  rendered list, the token and the view unchanged: the page after the click is the page
  before it, whatever the network would have answered.
\<close>

theorem addTask_empty_title_noop:
  "task_title s = [] \<Longrightarrow> addTask r rt s = s"
  by (simp add: addTask_def)

text \<open>Witness for C2: the logged-in page with the title input emptied.\<close>

theorem addTask_empty_title_noop_witness:
  "task_title (logged_in\<lparr>task_title := []\<rparr>) = [] \<and>
   addTask (Resolved \<lparr>status = 201, json = None\<rparr>) Pending (logged_in\<lparr>task_title := []\<rparr>)
     = logged_in\<lparr>task_title := []\<rparr>"
  using addTask_empty_title_noop [of "logged_in\<lparr>task_title := []\<rparr>"
      "Resolved \<lparr>status = 201, json = None\<rparr>" Pending]
  by simp

subsection \<open>C3: errors of LoadTasks\<close>

text \<open>An element renders unless it is \<open>null\<close> or its title has no string conversion.\<close>

lemma renders_iff:
  "renders task \<longleftrightarrow>
     \<not> nullish task \<and> (\<forall>t. get_prop task ''title'' = Inr t \<longrightarrow> to_string t \<noteq> None)"
  by (cases task) (auto simp: renders_def nullish_def li_text_def split: option.splits)

text \<open>
  C3, as stated, fails: \<open>tasksList.innerHTML = ''\<close> runs before \<open>tasks.forEach\<close>. A 200
  response whose body is the JSON object \<open>{}\<close> throws a \<open>TypeError\<close> after the list has
  been emptied: the error is logged, and the item rendered before is gone.
\<close>

theorem loadTasks_error_counterexample:
  "\<not> is_401 (json_response (Obj [])) \<and> \<not> is_array (Obj []) \<and>
   tasks_list logged_in = [''Buy milk''] \<and>
   tasks_list (loadTasks (json_response (Obj [])) logged_in) = [] \<and>
   console (loadTasks (json_response (Obj [])) logged_in) = [(log_load_error, Some TypeError)]"
  by (simp add: is_401_def is_array_def json_response_def loadTasks_def fetch_def logged_in_def
        logged_out_def render_def console_error_def)

text \<open>
  C3, amended: every error thrown by LoadTasks after its request has been sent and not
  answered by a 401 is logged, and these are all the cases: the network call fails, the
  body is not JSON, the body is JSON but not an array, or the body is an array with an
  element that does not render. The previously rendered list is left unchanged in the
  first two cases. In the third the list has been emptied before the error; in the
  fourth the items of the elements before the first one that does not render have
  replaced the list. In every other case (the call still pending, or an array whose
  elements all render) nothing is logged.
\<close>

theorem loadTasks_error_logged:
  "truthy (token s) \<Longrightarrow> to_string (token s) = Some b \<Longrightarrow>
   (console (loadTasks Rejected s) = console s @ [(log_load_error, Some NetworkError)] \<and>
    tasks_list (loadTasks Rejected s) = tasks_list s) \<and>
   (status resp \<noteq> 401 \<and> json resp = None \<longrightarrow>
      console (loadTasks (Resolved resp) s) = console s @ [(log_load_error, Some SyntaxError)] \<and>
      tasks_list (loadTasks (Resolved resp) s) = tasks_list s) \<and>
   (status resp \<noteq> 401 \<and> json resp = Some v \<and> \<not> is_array v \<longrightarrow>
      console (loadTasks (Resolved resp) s) = console s @ [(log_load_error, Some TypeError)] \<and>
      tasks_list (loadTasks (Resolved resp) s) = []) \<and>
   (status resp \<noteq> 401 \<and> json resp = Some (Arr ts) \<and> \<not> list_all renders ts \<longrightarrow>
      console (loadTasks (Resolved resp) s) = console s @ [(log_load_error, Some TypeError)] \<and>
      tasks_list (loadTasks (Resolved resp) s) = map item_text (takeWhile renders ts)) \<and>
   (status resp \<noteq> 401 \<and> json resp = Some (Arr ts) \<and> list_all renders ts \<longrightarrow>
      console (loadTasks (Resolved resp) s) = console s \<and>
      tasks_list (loadTasks (Resolved resp) s) = map item_text ts) \<and>
   console (loadTasks Pending s) = console s"
proof -
  assume t: "truthy (token s)" "to_string (token s) = Some b"
  have a: "console (loadTasks Rejected s) = console s @ [(log_load_error, Some NetworkError)] \<and>
    tasks_list (loadTasks Rejected s) = tasks_list s"
    using t by (simp add: loadTasks_def fetch_def console_error_def)
  have b: "console (loadTasks (Resolved resp) s) = console s @ [(log_load_error, Some SyntaxError)] \<and>
      tasks_list (loadTasks (Resolved resp) s) = tasks_list s"
    if "status resp \<noteq> 401" "json resp = None"
    using t that by (simp add: loadTasks_def fetch_def console_error_def)
  have c: "console (loadTasks (Resolved resp) s) = console s @ [(log_load_error, Some TypeError)] \<and>
      tasks_list (loadTasks (Resolved resp) s) = []"
    if "status resp \<noteq> 401" "json resp = Some v" "\<not> is_array v"
    using t that
    by (cases v) (simp_all add: is_array_def loadTasks_def fetch_def console_error_def render_def)
  have d: "console (loadTasks (Resolved resp) s) = console s @ [(log_load_error, Some TypeError)] \<and>
      tasks_list (loadTasks (Resolved resp) s) = map item_text (takeWhile renders ts)"
    if "status resp \<noteq> 401" "json resp = Some (Arr ts)" "\<not> list_all renders ts"
    using t that forEach_li_prefix [of ts "[]"]
    by (simp add: loadTasks_def fetch_def console_error_def render_def)
  have e: "console (loadTasks (Resolved resp) s) = console s \<and>
      tasks_list (loadTasks (Resolved resp) s) = map item_text ts"
    if "status resp \<noteq> 401" "json resp = Some (Arr ts)" "list_all renders ts"
  proof -
    from that(3) have "takeWhile renders ts = ts" by (simp add: list_all_iff)
    with t that forEach_li_prefix [of ts "[]"] show ?thesis
      by (simp add: loadTasks_def fetch_def console_error_def render_def)
  qed
  have f: "console (loadTasks Pending s) = console s"
    using t by (simp add: loadTasks_def fetch_def)
  from a b c d e f show ?thesis by blast
qed

text \<open>
  Witness for C3, on the logged-in page that shows \<open>Buy milk\<close>: a failed call and a body
  that is not JSON keep the item; a JSON string empties the list; the array
  \<open>[{"title": 5}, null]\<close> leaves the one item \<open>5\<close>; an array of one task whose title is
  \<open>{"toString": 1}\<close> leaves no item.
\<close>

theorem loadTasks_error_logged_witness:
  "truthy (token logged_in) \<and> to_string (token logged_in) = Some ''tok1'' \<and>
   console (loadTasks Rejected logged_in) = [(log_load_error, Some NetworkError)] \<and>
   tasks_list (loadTasks Rejected logged_in) = [''Buy milk''] \<and>
   console (loadTasks (Resolved \<lparr>status = 200, json = None\<rparr>) logged_in)
     = [(log_load_error, Some SyntaxError)] \<and>
   tasks_list (loadTasks (Resolved \<lparr>status = 200, json = None\<rparr>) logged_in) = [''Buy milk''] \<and>
   console (loadTasks (Resolved \<lparr>status = 500, json = Some (Str ''down'')\<rparr>) logged_in)
     = [(log_load_error, Some TypeError)] \<and>
   tasks_list (loadTasks (Resolved \<lparr>status = 500, json = Some (Str ''down'')\<rparr>) logged_in) = [] \<and>
   console (loadTasks (json_response (Arr [Obj [(''title'', Num ''5'')], Null])) logged_in)
     = [(log_load_error, Some TypeError)] \<and>
   tasks_list (loadTasks (json_response (Arr [Obj [(''title'', Num ''5'')], Null])) logged_in)
     = [''5''] \<and>
   console (loadTasks (json_response (Arr [Obj [(''title'', unprintable)]])) logged_in)
     = [(log_load_error, Some TypeError)] \<and>
   tasks_list (loadTasks (json_response (Arr [Obj [(''title'', unprintable)]])) logged_in) = []"
  using
    loadTasks_error_logged [of logged_in "''tok1''" "\<lparr>status = 200, json = None\<rparr>" Null "[]"]
    loadTasks_error_logged [of logged_in "''tok1''" "\<lparr>status = 500, json = Some (Str ''down'')\<rparr>"
      "Str ''down''" "[]"]
    loadTasks_error_logged [of logged_in "''tok1''"
      "\<lparr>status = 200, json = Some (Arr [Obj [(''title'', Num ''5'')], Null])\<rparr>"
      Null "[Obj [(''title'', Num ''5'')], Null]"]
    loadTasks_error_logged [of logged_in "''tok1''"
      "\<lparr>status = 200, json = Some (Arr [Obj [(''title'', unprintable)]])\<rparr>"
      Null "[Obj [(''title'', unprintable)]]"]
  by (simp add: logged_in_def logged_out_def json_response_def is_array_def renders_def
        item_text_def li_text_def unprintable_def)

subsection \<open>C4: a 401 answer to LoadTasks\<close>

text \<open>
  C4: in every state with a token present (truthy, and with a string conversion, so that
  the request is sent and can be answered), LoadTasks answered by a 401 ends in the page
  that Logout would give, but for the GET that has been sent: the token is cleared, the
  storage entry removed, the view is AuthView, and the rendered list is as it was.
\<close>

theorem loadTasks_401_is_logout:
  "truthy (token s) \<Longrightarrow> to_string (token s) = Some b \<Longrightarrow> status resp = 401 \<Longrightarrow>
   loadTasks (Resolved resp) s
     = (logout s)\<lparr>requests := requests s @ [get_tasks_request b]\<rparr>
   \<and> token (loadTasks (Resolved resp) s) = Null
   \<and> storage (loadTasks (Resolved resp) s) = None
   \<and> view_of (loadTasks (Resolved resp) s) = Some AuthView
   \<and> tasks_list (loadTasks (Resolved resp) s) = tasks_list s"
  by (simp add: loadTasks_def logout_def showAuth_def fetch_def get_tasks_request_def
        TASKS_API_URL_def view_of_def)

text \<open>Witness for C4: the logged-in page, a 401 without a body.\<close>

theorem loadTasks_401_is_logout_witness:
  "truthy (token logged_in) \<and> to_string (token logged_in) = Some ''tok1'' \<and>
   loadTasks (Resolved \<lparr>status = 401, json = None\<rparr>) logged_in
     = logged_out\<lparr>tasks_list := [''Buy milk''], task_title := ''Walk dog'',
         requests := [get_tasks_request ''tok1'']\<rparr>"
  using loadTasks_401_is_logout [of logged_in "''tok1''" "\<lparr>status = 401, json = None\<rparr>"]
  by (simp add: logged_in_def logged_out_def logout_def showAuth_def)

subsection \<open>C5: the outcomes of Login\<close>

text \<open>
  C5, as stated, fails: a 2xx response is not enough. When its body is not JSON the
  \<open>catch\<close> shows the network message and token, storage and view stay as they were;
  when the body gives a token that \<open>setItem\<close> does not store (\<open>{"toString": 1}\<close>, or any
  token when the quota is exceeded) the storage and the view stay as well.
\<close>

theorem login_outcomes_counterexample:
  "ok \<lparr>status = 200, json = None\<rparr> \<and>
   login (Resolved \<lparr>status = 200, json = None\<rparr>) Stored Pending logged_out
     = logged_out\<lparr>auth_msg := ''Erreur r'' @ [CHR 0xC3, CHR 0xA9] @ ''seau.'',
         requests := [login_request ''alice'' ''x'']\<rparr> \<and>
   view_of (login (Resolved \<lparr>status = 200, json = None\<rparr>) Stored Pending logged_out)
     = Some AuthView \<and>
   storage (login (json_response (Obj [(''access_token'', unprintable)])) Stored Pending
     logged_out) = None \<and>
   view_of (login (json_response (Obj [(''access_token'', unprintable)])) Stored Pending
     logged_out) = Some AuthView \<and>
   storage (login (json_response (Obj [(''access_token'', Str ''tok1'')])) QuotaExceeded Pending
     logged_out) = None \<and>
   view_of (login (json_response (Obj [(''access_token'', Str ''tok1'')])) QuotaExceeded Pending
     logged_out) = Some AuthView"
  by (simp add: ok_def json_response_def unprintable_def logged_out_def login_def setItem_def
        fetch_def login_request_def AUTH_API_URL_def msg_network_def view_of_def)

text \<open>
  C5, amended. When Login is answered by a 2xx response whose JSON body yields a value
  \<open>v\<close> for \<open>access_token\<close> that is stored (\<open>v\<close> converts to the string \<open>t\<close> and the
  storage accepts the write), the token in memory becomes \<open>v\<close>, the storage holds \<open>t\<close>
  (\<open>v\<close> itself when it is a string), the tasks panel replaces the auth panel, and the
  page goes on as \<open>loadTasks\<close> does from there: at the moment the load has been
  triggered (its answer \<open>Pending\<close>) the view is TasksView and, the token being truthy,
  the GET carries it. When the 2xx body is not JSON or is \<open>null\<close>, the network message
  \<open>Erreur reseau.\<close> (with its accent) is shown and token, storage and view are as before.
  When the value is not stored, the same message is shown, storage and view are as
  before, and the token in memory is \<open>v\<close>. When the response is not 2xx the failure
  message \<open>Echec de la connexion.\<close> (with its accent) is shown, when the call fails the
  network message is shown, and in both cases token, storage and view are as before.
\<close>

theorem login_outcomes:
  "(ok resp \<and> json resp = Some d \<and> get_prop d ''access_token'' = Inr v \<and>
    to_string v = Some t \<longrightarrow>
      login (Resolved resp) Stored rt s
        = loadTasks rt (s\<lparr>auth_msg := [],
            requests := requests s @ [login_request (username s) (password s)],
            token := v, storage := Some t,
            auth_hidden := True, tasks_hidden := False\<rparr>) \<and>
      token (login (Resolved resp) Stored Pending s) = v \<and>
      storage (login (Resolved resp) Stored Pending s) = Some t \<and>
      view_of (login (Resolved resp) Stored Pending s) = Some TasksView \<and>
      (truthy v \<longrightarrow> requests (login (Resolved resp) Stored Pending s)
         = requests s @ [login_request (username s) (password s), get_tasks_request t])) \<and>
   (ok resp \<and> (json resp = None \<or> json resp = Some Null) \<longrightarrow>
      login (Resolved resp) q rt s
        = s\<lparr>auth_msg := ''Erreur r'' @ [CHR 0xC3, CHR 0xA9] @ ''seau.'',
            requests := requests s @ [login_request (username s) (password s)]\<rparr>) \<and>
   (ok resp \<and> json resp = Some d \<and> get_prop d ''access_token'' = Inr v \<and>
    (to_string v = None \<or> q = QuotaExceeded) \<longrightarrow>
      login (Resolved resp) q rt s
        = s\<lparr>auth_msg := ''Erreur r'' @ [CHR 0xC3, CHR 0xA9] @ ''seau.'',
            requests := requests s @ [login_request (username s) (password s)],
            token := v\<rparr>) \<and>
   (\<not> ok resp \<longrightarrow>
      login (Resolved resp) q rt s
        = s\<lparr>auth_msg := [CHR 0xC3, CHR 0x89] @ ''chec de la connexion.'',
            requests := requests s @ [login_request (username s) (password s)]\<rparr>) \<and>
   login Rejected q rt s
     = s\<lparr>auth_msg := ''Erreur r'' @ [CHR 0xC3, CHR 0xA9] @ ''seau.'',
         requests := requests s @ [login_request (username s) (password s)]\<rparr>"
proof -
  have p: "token (loadTasks Pending s') = token s' \<and> storage (loadTasks Pending s') = storage s'
    \<and> view_of (loadTasks Pending s') = view_of s'
    \<and> (truthy (token s') \<longrightarrow>
         requests (loadTasks Pending s') = requests s' @ [get_tasks_request t'])"
    if "to_string (token s') = Some t'" for s' t'
    using that
    by (cases "truthy (token s')")
      (simp_all add: loadTasks_Pending loadTasks_falsy fetch_def view_of_def)
  have a: "login (Resolved resp) Stored rt' s
        = loadTasks rt' (s\<lparr>auth_msg := [],
            requests := requests s @ [login_request (username s) (password s)],
            token := v, storage := Some t,
            auth_hidden := True, tasks_hidden := False\<rparr>)"
    if "ok resp" "json resp = Some d" "get_prop d ''access_token'' = Inr v" "to_string v = Some t"
    for rt'
    using that by (rule login_granted)
  have b: "login (Resolved resp) q rt s
        = s\<lparr>auth_msg := msg_network,
            requests := requests s @ [login_request (username s) (password s)]\<rparr>"
    if "ok resp" "json resp = None \<or> json resp = Some Null"
    using that by (intro login_no_body) auto
  have c: "login (Resolved resp) q rt s
        = s\<lparr>auth_msg := msg_network,
            requests := requests s @ [login_request (username s) (password s)],
            token := v\<rparr>"
    if "ok resp" "json resp = Some d" "get_prop d ''access_token'' = Inr v"
      "to_string v = None \<or> q = QuotaExceeded"
    using that by (rule login_not_stored)
  show ?thesis
    using a b c p [of "s\<lparr>auth_msg := [],
            requests := requests s @ [login_request (username s) (password s)],
            token := v, storage := Some t,
            auth_hidden := True, tasks_hidden := False\<rparr>" t]
    by (simp add: login_refused login_Rejected view_of_def msg_network_def msg_login_failed_def)
qed

text \<open>
  Witness for C5, the scenario of the specification: \<open>alice\<close> logs in, the body is
  \<open>{access_token: "tok1"}\<close>, and the load that follows returns one task. A 2xx answer
  with the body \<open>null\<close>, a token that is not stored, a 401 and a failed call set the
  message.
\<close>

theorem login_outcomes_witness:
  "ok \<lparr>status = 200, json = Some (Obj [(''access_token'', Str ''tok1'')])\<rparr> \<and>
   to_string (Str ''tok1'') = Some ''tok1'' \<and>
   \<not> ok \<lparr>status = 401, json = Some (Obj [(''detail'', Str ''bad credentials'')])\<rparr> \<and>
   login (json_response (Obj [(''access_token'', Str ''tok1'')])) Stored
       (json_response (Arr [Obj [(''title'', Str ''Buy milk''), (''completed'', Bool False)]]))
       logged_out
     = logged_out\<lparr>token := Str ''tok1'', storage := Some ''tok1'', auth_hidden := True,
         tasks_hidden := False, tasks_list := [''Buy milk''],
         requests := [login_request ''alice'' ''x'', get_tasks_request ''tok1'']\<rparr> \<and>
   login (json_response Null) Stored Pending logged_out
     = logged_out\<lparr>auth_msg := msg_network, requests := [login_request ''alice'' ''x'']\<rparr> \<and>
   login (json_response (Obj [(''access_token'', Str ''tok1'')])) QuotaExceeded Pending logged_out
     = logged_out\<lparr>auth_msg := msg_network, requests := [login_request ''alice'' ''x''],
         token := Str ''tok1''\<rparr> \<and>
   login (Resolved \<lparr>status = 401, json = Some (Obj [(''detail'', Str ''bad credentials'')])\<rparr>)
       Stored Pending logged_out
     = logged_out\<lparr>auth_msg := msg_login_failed, requests := [login_request ''alice'' ''x'']\<rparr> \<and>
   login Rejected Stored Pending logged_out
     = logged_out\<lparr>auth_msg := msg_network, requests := [login_request ''alice'' ''x'']\<rparr>"
  using login_outcomes [of "\<lparr>status = 200, json = Some (Obj [(''access_token'', Str ''tok1'')])\<rparr>"
      "Obj [(''access_token'', Str ''tok1'')]" "Str ''tok1''" "''tok1''"
      "json_response (Arr [Obj [(''title'', Str ''Buy milk''), (''completed'', Bool False)]])"
      logged_out Stored]
    login_outcomes [of "\<lparr>status = 200, json = Some (Obj [(''access_token'', Str ''tok1'')])\<rparr>"
      "Obj [(''access_token'', Str ''tok1'')]" "Str ''tok1''" "''tok1''" Pending logged_out
      QuotaExceeded]
    login_outcomes [of "\<lparr>status = 200, json = Some Null\<rparr>" Null Null "[]" Pending logged_out
      Stored]
    login_outcomes [of "\<lparr>status = 401, json = Some (Obj [(''detail'', Str ''bad credentials'')])\<rparr>"
      Null Null "[]" Pending logged_out Stored]
  by (simp add: ok_def json_response_def logged_out_def loadTasks_def fetch_def render_def
        li_text_def get_tasks_request_def TASKS_API_URL_def msg_network_def
        msg_login_failed_def)

subsection \<open>C6: rendering the task list\<close>

text \<open>
  C6: with a token present (truthy, and with a string conversion, so that the request
  is sent), when LoadTasks is answered with a status other than 401 by a JSON array
  whose elements carry the tasks \<open>ts\<close>, the rendered list is exactly the display of each
  task of \<open>ts\<close>, in the order of the array, whatever was rendered before, and nothing is
  logged. The item of an element is its bare title exactly when the task is not
  completed: a completed task carries the marker.
\<close>

theorem loadTasks_renders:
  "truthy (token s) \<Longrightarrow> to_string (token s) = Some b \<Longrightarrow> status resp \<noteq> 401 \<Longrightarrow>
   json resp = Some (Arr js) \<Longrightarrow> list_all2 is_task js ts \<Longrightarrow>
   tasks_list (loadTasks (Resolved resp) s) = map spec_display ts \<and>
   console (loadTasks (Resolved resp) s) = console s \<and>
   list_all2 (\<lambda>j t. (li_text j = Inr (fst t)) = (\<not> snd t)) js ts"
proof -
  assume h: "truthy (token s)" "to_string (token s) = Some b" "status resp \<noteq> 401"
    "json resp = Some (Arr js)" "list_all2 is_task js ts"
  have "(li_text j = Inr (fst t)) = (\<not> snd t)" if "is_task j t" for j t
    using li_text_task [OF that] by (simp add: spec_display_def)
  with h(5) have m: "list_all2 (\<lambda>j t. (li_text j = Inr (fst t)) = (\<not> snd t)) js ts"
    by (rule list_all2_mono)
  from h forEach_li_tasks [of js ts "[]"]
  have "tasks_list (loadTasks (Resolved resp) s) = map spec_display ts \<and>
   console (loadTasks (Resolved resp) s) = console s"
    by (simp add: loadTasks_def fetch_def render_def)
  with m show ?thesis by simp
qed

text \<open>
  Witness for C6: two tasks, the first completed, replace the one item of the logged-in
  page; the first item ends with the marker, the second is the bare title.
\<close>

theorem loadTasks_renders_witness:
  "truthy (token logged_in) \<and> to_string (token logged_in) = Some ''tok1'' \<and>
   tasks_list logged_in = [''Buy milk''] \<and>
   tasks_list (loadTasks (Resolved \<lparr>status = 200, json = Some (Arr
       [Obj [(''id'', Num ''1''), (''title'', Str ''Walk dog''), (''completed'', Bool True)],
        Obj [(''id'', Num ''2''), (''title'', Str ''Buy milk''), (''completed'', Bool False)]])\<rparr>)
     logged_in)
   = [''Walk dog (Termin'' @ [CHR 0xC3, CHR 0xA9] @ ''e)'', ''Buy milk'']"
  using loadTasks_renders [of logged_in "''tok1''"
      "\<lparr>status = 200, json = Some (Arr
       [Obj [(''id'', Num ''1''), (''title'', Str ''Walk dog''), (''completed'', Bool True)],
        Obj [(''id'', Num ''2''), (''title'', Str ''Buy milk''), (''completed'', Bool False)]])\<rparr>"
      "[Obj [(''id'', Num ''1''), (''title'', Str ''Walk dog''), (''completed'', Bool True)],
        Obj [(''id'', Num ''2''), (''title'', Str ''Buy milk''), (''completed'', Bool False)]]"
      "[(''Walk dog'', True), (''Buy milk'', False)]"]
  by (simp add: logged_in_def logged_out_def is_task_def spec_display_def)

subsection \<open>C7: Logout\<close>

text \<open>
  C7: from every page, Logout clears the token in memory and in the storage and shows
  AuthView. It takes no answer from the network (it awaits nothing) and sends no
  request.
\<close>

theorem logout_clears_session:
  "token (logout s) = Null \<and> storage (logout s) = None \<and> view_of (logout s) = Some AuthView
   \<and> requests (logout s) = requests s"
  by (simp add: logout_def showAuth_def view_of_def)

subsection \<open>C8: the initial view\<close>




subsection \<open>C9: the outcomes of AddTask\<close>

text \<open>\<open>loadTasks\<close> writes neither the title input nor the message node.\<close>

lemma loadTasks_inputs:
  "task_title (loadTasks r s) = task_title s \<and> auth_msg (loadTasks r s) = auth_msg s"
proof (cases "truthy (token s)")
  case False
  then show ?thesis by (simp add: loadTasks_falsy)
next
  case True
  show ?thesis
  proof (cases "to_string (token s)")
    case None
    with True show ?thesis by (simp add: loadTasks_unprintable)
  next
    case (Some b)
    let ?s1 = "fetch (Request ''GET'' (TASKS_API_URL @ ''/tasks'')
                     [(''Authorization'', ''Bearer '' @ b)] NoBody) s"
    show ?thesis
    proof (cases r)
      case Pending
      with True Some show ?thesis by (simp add: loadTasks_def fetch_def)
    next
      case Rejected
      with True Some show ?thesis by (simp add: loadTasks_def fetch_def console_error_def)
    next
      case (Resolved resp)
      show ?thesis
      proof (cases "json resp")
        case None
        with True Some Resolved show ?thesis
          by (simp add: loadTasks_def fetch_def console_error_def showAuth_def Let_def)
      next
        case body: (Some v)
        obtain lis where "fst (render v ?s1) = ?s1\<lparr>tasks_list := lis\<rparr>"
          using render_frame by blast
        with True Some Resolved body show ?thesis
          by (auto simp: loadTasks_def fetch_def console_error_def showAuth_def Let_def
                split: prod.splits option.splits)
      qed
    qed
  qed
qed

text \<open>
  C9: with a token present and a title that is not empty, AddTask builds its POST. When
  the token has a string conversion \<open>b\<close> the request is sent. On a 201 the title input
  is cleared and \<open>loadTasks\<close> runs on the page so obtained: the input is empty at the
  end and no message is shown. On any other status, and when the call fails, one line
  is logged to the console and nothing else changes: title input, token, storage, view,
  rendered list and message node are as before. When the token has no string
  conversion, building the header throws: nothing is sent, and again one line is logged
  and nothing else changes.
\<close>

theorem addTask_outcomes:
  "truthy (token s) \<Longrightarrow> task_title s \<noteq> [] \<Longrightarrow>
   (to_string (token s) = Some b \<longrightarrow>
      (status resp = 201 \<longrightarrow>
         addTask (Resolved resp) rt s
           = loadTasks rt (s\<lparr>requests := requests s @ [post_task_request b (task_title s)],
               task_title := []\<rparr>) \<and>
         task_title (addTask (Resolved resp) rt s) = [] \<and>
         auth_msg (addTask (Resolved resp) rt s) = auth_msg s) \<and>
      (status resp \<noteq> 201 \<longrightarrow>
         addTask (Resolved resp) rt s
           = s\<lparr>console := console s @ [(log_add_refused, None)],
               requests := requests s @ [post_task_request b (task_title s)]\<rparr>) \<and>
      addTask Rejected rt s
        = s\<lparr>console := console s @ [(log_add_error, Some NetworkError)],
            requests := requests s @ [post_task_request b (task_title s)]\<rparr>) \<and>
   (to_string (token s) = None \<longrightarrow>
      addTask r rt s = s\<lparr>console := console s @ [(log_add_error, Some TypeError)]\<rparr>)"
proof -
  assume h: "truthy (token s)" "task_title s \<noteq> []"
  let ?s' = "s\<lparr>requests := requests s @ [post_task_request b (task_title s)],
            task_title := []\<rparr>"
  have a: "addTask (Resolved resp) rt s = loadTasks rt ?s'"
    if "to_string (token s) = Some b" "status resp = 201"
    using h that
    by (simp add: addTask_def fetch_def post_task_request_def TASKS_API_URL_def Let_def)
  have b: "task_title (loadTasks rt ?s') = [] \<and> auth_msg (loadTasks rt ?s') = auth_msg s"
    by (simp add: loadTasks_inputs)
  have c: "addTask (Resolved resp) rt s
        = s\<lparr>console := console s @ [(log_add_refused, None)],
            requests := requests s @ [post_task_request b (task_title s)]\<rparr>"
    if "to_string (token s) = Some b" "status resp \<noteq> 201"
    using h that
    by (simp add: addTask_def fetch_def console_error_def post_task_request_def
          TASKS_API_URL_def Let_def)
  have d: "addTask Rejected rt s
     = s\<lparr>console := console s @ [(log_add_error, Some NetworkError)],
         requests := requests s @ [post_task_request b (task_title s)]\<rparr>"
    if "to_string (token s) = Some b"
    using h that
    by (simp add: addTask_def fetch_def console_error_def post_task_request_def
          TASKS_API_URL_def Let_def)
  have e: "addTask r rt s = s\<lparr>console := console s @ [(log_add_error, Some TypeError)]\<rparr>"
    if "to_string (token s) = None"
    using h that by (simp add: addTask_def console_error_def Let_def)
  from a b c d e show ?thesis by simp
qed

text \<open>
  Witness for C9, the scenario of the specification: \<open>Walk dog\<close> is posted from the
  logged-in page; a 201 is followed by a reload that returns both tasks; a 500 and a
  failed call only log, and so does a click when the token is \<open>{"toString": 1}\<close>.
\<close>

theorem addTask_outcomes_witness:
  "truthy (token logged_in) \<and> task_title logged_in \<noteq> [] \<and>
   to_string (token logged_in) = Some ''tok1'' \<and>
   addTask (Resolved \<lparr>status = 201, json = None\<rparr>)
       (json_response (Arr [Obj [(''title'', Str ''Buy milk''), (''completed'', Bool False)],
                            Obj [(''title'', Str ''Walk dog''), (''completed'', Bool False)]]))
       logged_in
     = logged_in\<lparr>task_title := [], tasks_list := [''Buy milk'', ''Walk dog''],
         requests := [post_task_request ''tok1'' ''Walk dog'', get_tasks_request ''tok1'']\<rparr> \<and>
   addTask (Resolved \<lparr>status = 500, json = None\<rparr>) Pending logged_in
     = logged_in\<lparr>console := [(log_add_refused, None)],
         requests := [post_task_request ''tok1'' ''Walk dog'']\<rparr> \<and>
   addTask Rejected Pending logged_in
     = logged_in\<lparr>console := [(log_add_error, Some NetworkError)],
         requests := [post_task_request ''tok1'' ''Walk dog'']\<rparr> \<and>
   to_string (token (logged_in\<lparr>token := unprintable\<rparr>)) = None \<and>
   addTask Rejected Pending (logged_in\<lparr>token := unprintable\<rparr>)
     = logged_in\<lparr>token := unprintable, console := [(log_add_error, Some TypeError)]\<rparr>"
  using addTask_outcomes [of logged_in "''tok1''" "\<lparr>status = 201, json = None\<rparr>"
      "json_response (Arr [Obj [(''title'', Str ''Buy milk''), (''completed'', Bool False)],
                           Obj [(''title'', Str ''Walk dog''), (''completed'', Bool False)]])"
      Rejected]
    addTask_outcomes [of logged_in "''tok1''" "\<lparr>status = 500, json = None\<rparr>" Pending Rejected]
    addTask_outcomes [of "logged_in\<lparr>token := unprintable\<rparr>" "[]"
      "\<lparr>status = 500, json = None\<rparr>" Pending Rejected]
  by (simp add: logged_in_def logged_out_def json_response_def unprintable_def loadTasks_def
        fetch_def render_def li_text_def get_tasks_request_def TASKS_API_URL_def)

subsection \<open>C10: a login whose body has no \<open>access_token\<close>\<close>




end
